theory Spec2Isabelle
  imports Complex_Main
begin

section \<open>The JavaScript values the program computes with\<close>

text \<open>
  The program is TypeScript. Its number type is the IEEE-754 double of ECMAScript, with the
  three special values \<open>NaN\<close>, \<open>+Infinity\<close> and \<open>-Infinity\<close>. The special values
  are modelled as they are, since the program's \<open>||\<close> defaults and \<open>isNaN\<close> test
  branch on them. A finite number is modelled by the rational it denotes and arithmetic on
  finite numbers is exact: the rounding of a double to 53 bits, overflow to an infinity and
  the sign of zero are outside this model.

  A string is a list of 8-bit characters, each read as the code unit of the same number
  (U+0000 to U+00FF). The white space of ECMAScript above U+00FF (U+FEFF, U+2028 and the
  like) is outside this model.
\<close>

datatype jsnum = NaN | NegInf | Fin rat | PosInf

text \<open>ToBoolean on a number: \<open>0\<close> and \<open>NaN\<close> are falsy.\<close>

fun truthy :: "jsnum \<Rightarrow> bool" where
  "truthy NaN = False"
| "truthy (Fin x) = (x \<noteq> 0)"
| "truthy NegInf = True"
| "truthy PosInf = True"

text \<open>\<open>x || 0\<close> on a number.\<close>

definition orZero :: "jsnum \<Rightarrow> jsnum" where
  "orZero x = (if truthy x then x else Fin 0)"

fun isNaN :: "jsnum \<Rightarrow> bool" where
  "isNaN NaN = True"
| "isNaN _ = False"

fun js_add :: "jsnum \<Rightarrow> jsnum \<Rightarrow> jsnum" where
  "js_add NaN _ = NaN"
| "js_add _ NaN = NaN"
| "js_add PosInf NegInf = NaN"
| "js_add NegInf PosInf = NaN"
| "js_add PosInf _ = PosInf"
| "js_add _ PosInf = PosInf"
| "js_add NegInf _ = NegInf"
| "js_add _ NegInf = NegInf"
| "js_add (Fin x) (Fin y) = Fin (x + y)"

fun js_neg :: "jsnum \<Rightarrow> jsnum" where
  "js_neg NaN = NaN"
| "js_neg PosInf = NegInf"
| "js_neg NegInf = PosInf"
| "js_neg (Fin x) = Fin (- x)"

definition js_sub :: "jsnum \<Rightarrow> jsnum \<Rightarrow> jsnum" where
  "js_sub a b = js_add a (js_neg b)"

text \<open>The sign of a number that is not \<open>NaN\<close>: \<open>-1\<close>, \<open>0\<close> or \<open>1\<close>.\<close>

fun js_sgn :: "jsnum \<Rightarrow> int" where
  "js_sgn NaN = 0"
| "js_sgn PosInf = 1"
| "js_sgn NegInf = - 1"
| "js_sgn (Fin x) = (if x < 0 then - 1 else if x = 0 then 0 else 1)"

fun js_mul :: "jsnum \<Rightarrow> jsnum \<Rightarrow> jsnum" where
  "js_mul NaN _ = NaN"
| "js_mul _ NaN = NaN"
| "js_mul (Fin x) (Fin y) = Fin (x * y)"
| "js_mul a b =
     (if js_sgn a * js_sgn b = 0 then NaN
      else if js_sgn a * js_sgn b > 0 then PosInf else NegInf)"


fun js_abs :: "jsnum \<Rightarrow> jsnum" where
  "js_abs NaN = NaN"
| "js_abs PosInf = PosInf"
| "js_abs NegInf = PosInf"
| "js_abs (Fin x) = Fin \<bar>x\<bar>"

text \<open>
  \<open>Math.round\<close>: the integer closest to the argument, the one closer to \<open>+Infinity\<close> in
  a tie.
\<close>

fun js_round :: "jsnum \<Rightarrow> jsnum" where
  "js_round (Fin x) = Fin (of_int \<lfloor>x + 1 / 2\<rfloor>)"
| "js_round a = a"


text \<open>The relational operators; every comparison with \<open>NaN\<close> is false.\<close>

fun js_less :: "jsnum \<Rightarrow> jsnum \<Rightarrow> bool" where
  "js_less NaN _ = False"
| "js_less _ NaN = False"
| "js_less (Fin x) (Fin y) = (x < y)"
| "js_less NegInf b = (b \<noteq> NegInf)"
| "js_less a PosInf = (a \<noteq> PosInf)"
| "js_less _ _ = False"

fun js_le :: "jsnum \<Rightarrow> jsnum \<Rightarrow> bool" where
  "js_le NaN _ = False"
| "js_le _ NaN = False"
| "js_le a b = (a = b \<or> js_less a b)"

section \<open>Strings: split, trim and the numeric conversions\<close>

text \<open>
  \<open>s.split(sep)\<close> for a separator of one character. The result always has at least one
  element: the empty string splits into the list holding one empty string. So the split of
  the rest of a string is never empty, and the last case below is not reached.
\<close>

fun js_split :: "char \<Rightarrow> string \<Rightarrow> string list" where
  "js_split sep [] = [[]]"
| "js_split sep (c # cs) =
     (if c = sep then [] # js_split sep cs
      else (case js_split sep cs of
              w # ws \<Rightarrow> (c # w) # ws
            | [] \<Rightarrow> [[c]]))"

text \<open>
  White space and line terminators of ECMAScript among the code units below 256: tab, line
  feed, vertical tab, form feed, carriage return, space and no-break space.
\<close>

definition isWhiteSpace :: "char \<Rightarrow> bool" where
  "isWhiteSpace c = (of_char c \<in> {9, 10, 11, 12, 13, 32, 160 :: nat})"

definition trimStart :: "string \<Rightarrow> string" where
  "trimStart s = dropWhile isWhiteSpace s"

definition js_trim :: "string \<Rightarrow> string" where
  "js_trim s = rev (dropWhile isWhiteSpace (rev (dropWhile isWhiteSpace s)))"

definition isDigit :: "char \<Rightarrow> bool" where
  "isDigit c = (48 \<le> (of_char c :: nat) \<and> (of_char c :: nat) \<le> 57)"

text \<open>The value of a digit in a radix up to 16, if the character is one.\<close>

definition digitOf :: "nat \<Rightarrow> char \<Rightarrow> nat option" where
  "digitOf radix c =
     (let n = (of_char c :: nat);
          v = (if 48 \<le> n \<and> n \<le> 57 then Some (n - 48)
               else if 97 \<le> n \<and> n \<le> 102 then Some (n - 87)
               else if 65 \<le> n \<and> n \<le> 70 then Some (n - 55)
               else None)
      in case v of None \<Rightarrow> None | Some d \<Rightarrow> if d < radix then Some d else None)"

definition isRadixDigit :: "nat \<Rightarrow> char \<Rightarrow> bool" where
  "isRadixDigit radix c = (digitOf radix c \<noteq> None)"

definition radixValue :: "nat \<Rightarrow> string \<Rightarrow> nat" where
  "radixValue radix ds =
     foldl (\<lambda>a c. radix * a + (case digitOf radix c of Some d \<Rightarrow> d | None \<Rightarrow> 0)) 0 ds"

text \<open>
  The exponent part of a decimal literal, applied to the mantissa \<open>m\<close>: an \<open>e\<close> or
  \<open>E\<close>, an optional sign and at least one digit. Without a digit the literal ends before
  the \<open>e\<close>. The result is the value and the text that follows the literal.
\<close>

definition withExponent :: "rat \<Rightarrow> string \<Rightarrow> rat \<times> string" where
  "withExponent m r =
     (case r of
        [] \<Rightarrow> (m, r)
      | e # r1 \<Rightarrow>
          if e = CHR ''e'' \<or> e = CHR ''E'' then
            (let neg = (case r1 of [] \<Rightarrow> False | s # _ \<Rightarrow> s = CHR ''-'');
                 r2 = (case r1 of [] \<Rightarrow> r1
                       | s # r' \<Rightarrow> if s = CHR ''+'' \<or> s = CHR ''-'' then r' else r1);
                 ds = takeWhile isDigit r2
             in if ds = [] then (m, r)
                else (if neg then m / 10 ^ radixValue 10 ds else m * 10 ^ radixValue 10 ds,
                      dropWhile isDigit r2))
          else (m, r))"

text \<open>
  The longest prefix of \<open>s\<close> that is a StrUnsignedDecimalLiteral (\<open>Infinity\<close>, or digits
  with an optional fraction and exponent, or a fraction that starts with the point), with
  its value and the rest of \<open>s\<close>; \<open>None\<close> when no prefix is one.
\<close>

definition unsignedDecimalPrefix :: "string \<Rightarrow> (jsnum \<times> string) option" where
  "unsignedDecimalPrefix s =
     (if take 8 s = ''Infinity'' then Some (PosInf, drop 8 s)
      else
        (let ip = takeWhile isDigit s; r1 = dropWhile isDigit s
         in case r1 of
              [] \<Rightarrow> if ip = [] then None else Some (Fin (of_nat (radixValue 10 ip)), [])
            | d # r1' \<Rightarrow>
                if d = CHR ''.'' then
                  (let fp = takeWhile isDigit r1'; r2 = dropWhile isDigit r1'
                   in if ip = [] \<and> fp = [] then None
                      else (case withExponent
                                   (of_nat (radixValue 10 (ip @ fp)) / 10 ^ length fp) r2 of
                              (v, rest) \<Rightarrow> Some (Fin v, rest)))
                else if ip = [] then None
                else (case withExponent (of_nat (radixValue 10 ip)) r1 of
                        (v, rest) \<Rightarrow> Some (Fin v, rest))))"

text \<open>The same for StrDecimalLiteral, which allows one sign in front.\<close>

definition decimalPrefix :: "string \<Rightarrow> (jsnum \<times> string) option" where
  "decimalPrefix s =
     (case s of
        [] \<Rightarrow> None
      | c # r \<Rightarrow>
          if c = CHR ''+'' then unsignedDecimalPrefix r
          else if c = CHR ''-'' then
            (case unsignedDecimalPrefix r of
               None \<Rightarrow> None
             | Some (v, rest) \<Rightarrow> Some (js_neg v, rest))
          else unsignedDecimalPrefix s)"

text \<open>
  NonDecimalIntegerLiteral: \<open>0x\<close>, \<open>0o\<close> or \<open>0b\<close> (in either case) and at least one
  digit of that radix, nothing else.
\<close>

definition nonDecimalLiteral :: "string \<Rightarrow> nat option" where
  "nonDecimalLiteral s =
     (case s of
        z # x # ds \<Rightarrow>
          (let radix = (if x = CHR ''x'' \<or> x = CHR ''X'' then 16
                        else if x = CHR ''o'' \<or> x = CHR ''O'' then 8
                        else if x = CHR ''b'' \<or> x = CHR ''B'' then 2 else (0::nat))
           in if z = CHR ''0'' \<and> radix \<noteq> 0 \<and> ds \<noteq> [] \<and> list_all (isRadixDigit radix) ds
              then Some (radixValue radix ds) else None)
      | _ \<Rightarrow> None)"

text \<open>
  \<open>Number(s)\<close> on a string (StringToNumber): white space is trimmed at both ends, the
  empty text is \<open>0\<close>, a text that is a numeric literal as a whole is its value, and any other
  text is \<open>NaN\<close>.
\<close>

definition Number :: "string \<Rightarrow> jsnum" where
  "Number s =
     (let t = js_trim s
      in if t = [] then Fin 0
         else (case nonDecimalLiteral t of
                 Some n \<Rightarrow> Fin (of_nat n)
               | None \<Rightarrow>
                   (case decimalPrefix t of
                      Some (v, rest) \<Rightarrow> if rest = [] then v else NaN
                    | None \<Rightarrow> NaN)))"

text \<open>
  ToString on a value that is a string or \<open>undefined\<close> (\<open>None\<close>): an array read out of
  range gives \<open>undefined\<close>, and \<open>parseInt\<close> and \<open>parseFloat\<close> convert their argument
  to a string first.
\<close>

definition ToString :: "string option \<Rightarrow> string" where
  "ToString v = (case v of None \<Rightarrow> ''undefined'' | Some s \<Rightarrow> s)"

text \<open>
  \<open>parseFloat(v)\<close>: leading white space is skipped, the longest prefix that is a decimal
  literal is the value, and \<open>NaN\<close> is returned when there is none.
\<close>

definition parseFloat :: "string option \<Rightarrow> jsnum" where
  "parseFloat v =
     (case decimalPrefix (trimStart (ToString v)) of
        None \<Rightarrow> NaN
      | Some (x, rest) \<Rightarrow> x)"

text \<open>
  \<open>parseInt(v)\<close> with no radix: leading white space is skipped, one sign is read, a
  \<open>0x\<close> or \<open>0X\<close> selects radix 16 and radix 10 is used otherwise; the longest run of
  digits of the radix is the value, and \<open>NaN\<close> is returned when the run is empty.
\<close>

definition parseInt :: "string option \<Rightarrow> jsnum" where
  "parseInt v =
     (let s = trimStart (ToString v);
          neg = (case s of [] \<Rightarrow> False | c # _ \<Rightarrow> c = CHR ''-'');
          s1 = (case s of [] \<Rightarrow> s
                | c # r \<Rightarrow> if c = CHR ''+'' \<or> c = CHR ''-'' then r else s);
          hex = (take 2 s1 = ''0x'' \<or> take 2 s1 = ''0X'');
          radix = (if hex then 16 else 10);
          s2 = (if hex then drop 2 s1 else s1);
          z = takeWhile (isRadixDigit radix) s2
      in if z = [] then NaN
         else if neg then Fin (- of_nat (radixValue radix z))
         else Fin (of_nat (radixValue radix z)))"

text \<open>\<open>a[i]\<close> on an array: \<open>undefined\<close> out of range.\<close>

definition elemAt :: "'a list \<Rightarrow> nat \<Rightarrow> 'a option" where
  "elemAt xs i = (if i < length xs then Some (xs ! i) else None)"

text \<open>\<open>v || d\<close> on a string or \<open>undefined\<close>: the empty string and \<open>undefined\<close> are falsy.\<close>

definition orElse :: "string option \<Rightarrow> string \<Rightarrow> string" where
  "orElse v d = (case v of None \<Rightarrow> d | Some s \<Rightarrow> if s = [] then d else s)"

section \<open>Duration estimator (src/utils/csvParser.ts, calculateExpectedTime)\<close>

definition calculateExpectedTime :: "jsnum \<Rightarrow> jsnum \<Rightarrow> jsnum" where
  "calculateExpectedTime totalKms stopCount =
     (let travelTimeMinutes = totalKms;
          unloadingTimeMinutes = js_mul stopCount (Fin 30)
      in js_round (js_add travelTimeMinutes unloadingTimeMinutes))"

section \<open>Data model (the types module)\<close>

text \<open>
  The fields declared \<open>string\<close> that the parser fills with a bare column read
  (\<open>cols[3]\<close>) hold \<open>undefined\<close> when the row is short, so they are optional here.
\<close>

record StoreStop =
  stopNo :: jsnum
  storeNo :: "string option"
  storeName :: "string option"
  distance :: jsnum
  returnLeg :: jsnum
  windowStart :: "string option"
  windowEnd :: "string option"

text \<open>
  The load under accumulation is a \<open>Partial<Load>\<close> without its calculated field;
  finalising it adds \<open>expectedTimeMinutes\<close>.
\<close>

record PartialLoad =
  loadNo :: string
  routeNo :: "string option"
  driver :: string
  truck :: string
  trailer :: string
  despatchTime :: string
  date :: string
  stops :: "StoreStop list"
  totalPallets :: jsnum
  totalDistance :: jsnum
  totalReturnLeg :: jsnum

record Load = PartialLoad +
  expectedTimeMinutes :: jsnum

section \<open>CSV parser (src/utils/csvParser.ts, parseTransportCsv)\<close>

text \<open>The trimmed columns of a line.\<close>

definition columns :: "string \<Rightarrow> string list" where
  "columns line = map js_trim (js_split CHR '','' line)"

text \<open>
  \<open>loadId = cols[0]\<close>. The split of a line has at least one column, so the read is in
  range on every row the parser sees.
\<close>

definition loadIdOf :: "string list \<Rightarrow> string" where
  "loadIdOf cols = (case elemAt cols 0 of Some i \<Rightarrow> i | None \<Rightarrow> [])"

text \<open>\<open>loadId && !isNaN(Number(loadId))\<close>.\<close>

definition isNewLoad :: "string list \<Rightarrow> bool" where
  "isNewLoad cols =
     (case elemAt cols 0 of
        None \<Rightarrow> False
      | Some loadId \<Rightarrow> loadId \<noteq> [] \<and> \<not> isNaN (Number loadId))"

definition mkStop :: "string list \<Rightarrow> StoreStop" where
  "mkStop cols =
     \<lparr> stopNo = orZero (parseInt (elemAt cols 2)),
       storeNo = elemAt cols 3,
       storeName = elemAt cols 4,
       distance = orZero (parseFloat (elemAt cols 11)),
       returnLeg = orZero (parseFloat (elemAt cols 12)),
       windowStart = elemAt cols 7,
       windowEnd = elemAt cols 8 \<rparr>"

text \<open>The load object created when the load id changes.\<close>

definition newLoad :: "string \<Rightarrow> string list \<Rightarrow> StoreStop \<Rightarrow> PartialLoad" where
  "newLoad loadId cols stop =
     \<lparr> loadNo = loadId,
       routeNo = elemAt cols 1,
       driver = orElse (elemAt cols 13) ''UNKNOWN'',
       truck = orElse (elemAt cols 14) [],
       trailer = orElse (elemAt cols 15) [],
       despatchTime = orElse (elemAt cols 16) [],
       date = orElse (elemAt cols 6) [],
       stops = [stop],
       totalPallets = orZero (parseInt (elemAt cols 10)),
       totalDistance = distance stop,
       totalReturnLeg = returnLeg stop \<rparr>"

text \<open>The update of the current load by a further row with the same load id.\<close>

definition addStop :: "PartialLoad \<Rightarrow> string list \<Rightarrow> StoreStop \<Rightarrow> PartialLoad" where
  "addStop cur cols stop =
     cur \<lparr> stops := stops cur @ [stop],
           totalPallets := js_add (orZero (totalPallets cur)) (orZero (parseInt (elemAt cols 10))),
           totalDistance := js_add (orZero (totalDistance cur)) (distance stop),
           totalReturnLeg := returnLeg stop \<rparr>"

text \<open>Finalising a load: the expected time from distance plus return leg and the stop count.\<close>

definition finalize :: "PartialLoad \<Rightarrow> Load" where
  "finalize cur =
     (let totalDistance = js_add (orZero (totalDistance cur)) (orZero (totalReturnLeg cur))
      in PartialLoad.extend cur
           (Load.fields (calculateExpectedTime totalDistance
                            (orZero (Fin (of_nat (length (stops cur))))))))"

text \<open>
  The state of the scan: the loads pushed so far and \<open>currentLoad\<close> (\<open>None\<close> is
  \<open>null\<close>). The guard \<open>currentLoad && currentLoad.loadNo\<close> holds for a current load
  with a non-empty \<open>loadNo\<close>.
\<close>

type_synonym scan = "Load list \<times> PartialLoad option"

definition pushCurrent :: "scan \<Rightarrow> Load list" where
  "pushCurrent st =
     (case snd st of
        None \<Rightarrow> fst st
      | Some cur \<Rightarrow> if loadNo cur \<noteq> [] then fst st @ [finalize cur] else fst st)"

text \<open>The body of \<open>lines.forEach\<close>.\<close>

definition processLine :: "scan \<Rightarrow> string \<Rightarrow> scan" where
  "processLine st line =
     (let cols = columns line
      in if isNewLoad cols then
           (let loadId = loadIdOf cols;
                stop = mkStop cols
            in case snd st of
                 None \<Rightarrow> (pushCurrent st, Some (newLoad loadId cols stop))
               | Some cur \<Rightarrow>
                   if loadNo cur \<noteq> loadId
                   then (pushCurrent st, Some (newLoad loadId cols stop))
                   else (fst st, Some (addStop cur cols stop)))
         else st)"

definition parseTransportCsv :: "string \<Rightarrow> Load list" where
  "parseTransportCsv csvText =
     (let lines = js_split CHR ''\<newline>'' csvText
      in pushCurrent (foldl processLine ([], None) lines))"

section \<open>Time arithmetic (src/utils/csvParser.ts, calculateMinutesBetween)\<close>

text \<open>
  An element of the array of numbers that \<open>split(':').map(Number)\<close> gives, used as a
  number: \<open>undefined\<close> (\<open>None\<close>) converts to \<open>NaN\<close>; and \<open>m || 0\<close> on such an
  element.
\<close>

definition ToNumber :: "jsnum option \<Rightarrow> jsnum" where
  "ToNumber v = (case v of None \<Rightarrow> NaN | Some x \<Rightarrow> x)"

definition orZeroU :: "jsnum option \<Rightarrow> jsnum" where
  "orZeroU v = (case v of None \<Rightarrow> Fin 0 | Some x \<Rightarrow> orZero x)"

definition calculateMinutesBetween :: "string \<Rightarrow> string \<Rightarrow> jsnum" where
  "calculateMinutesBetween time1 time2 =
     (if time1 = [] \<or> time2 = [] then Fin 0
      else
        (let t1 = map Number (js_split CHR '':'' time1);
             h1 = elemAt t1 0; m1 = elemAt t1 1;
             t2 = map Number (js_split CHR '':'' time2);
             h2 = elemAt t2 0; m2 = elemAt t2 1;
             totalM1 = js_add (js_mul (ToNumber h1) (Fin 60)) (orZeroU m1);
             totalM2 = js_add (js_mul (ToNumber h2) (Fin 60)) (orZeroU m2)
         in js_abs (js_sub totalM2 totalM1)))"

section \<open>Driver aggregation (src/App.tsx, driverStats)\<close>

record DriverStats =
  driverName :: string
  loads :: "Load list"
  totalKms :: jsnum
  totalPallets :: jsnum
  avgTimeBetweenLoadsMinutes :: jsnum

record DriverChartData = DriverStats +
  avgExpectedTime :: jsnum

text \<open>
  \<open>Array.prototype.sort\<close> with a comparator. The sort is stable, and a comparator result
  of \<open>NaN\<close> counts as \<open>0\<close>. For a comparator that is not consistent ECMAScript leaves
  the order to the implementation; the model is the stable insertion sort, in which an
  element moves behind the elements it compares greater than.
\<close>

fun insertBy :: "('a \<Rightarrow> 'a \<Rightarrow> jsnum) \<Rightarrow> 'a \<Rightarrow> 'a list \<Rightarrow> 'a list" where
  "insertBy cmp x [] = [x]"
| "insertBy cmp x (y # ys) =
     (if js_less (Fin 0) (cmp x y) then y # insertBy cmp x ys else x # y # ys)"

definition js_sort :: "('a \<Rightarrow> 'a \<Rightarrow> jsnum) \<Rightarrow> 'a list \<Rightarrow> 'a list" where
  "js_sort cmp xs = foldr (insertBy cmp) xs []"




definition initStats :: "string \<Rightarrow> DriverChartData" where
  "initStats d =
     \<lparr> driverName = d, loads = [], totalKms = Fin 0, totalPallets = Fin 0,
       avgTimeBetweenLoadsMinutes = Fin 0, avgExpectedTime = Fin 0 \<rparr>"

text \<open>The three updates of \<open>statsMap[driver]\<close> for one load.\<close>

definition account :: "Load \<Rightarrow> DriverChartData \<Rightarrow> DriverChartData" where
  "account load st =
     st \<lparr> loads := loads st @ [load],
          totalKms := js_add (totalKms st) (js_add (totalDistance load) (totalReturnLeg load)),
          totalPallets := js_add (DriverStats.totalPallets st) (PartialLoad.totalPallets load) \<rparr>"










section \<open>The specification's notions\<close>

text \<open>
  The data rows of a text are the lines, as trimmed columns, whose first column is a
  number. Their maximal runs by adjacency of the load id: a row joins the run that follows
  it when that run has its load id, and starts a run of its own otherwise.
\<close>

definition dataRows :: "string \<Rightarrow> string list list" where
  "dataRows csvText = filter isNewLoad (map columns (js_split CHR ''\<newline>'' csvText))"

fun adjacentRuns :: "('a \<Rightarrow> 'k) \<Rightarrow> 'a list \<Rightarrow> 'a list list" where
  "adjacentRuns key [] = []"
| "adjacentRuns key (x # xs) =
     (case adjacentRuns key xs of
        [] \<Rightarrow> [[x]]
      | g # gs \<Rightarrow>
          (case g of
             [] \<Rightarrow> [x] # gs
           | y # _ \<Rightarrow> if key x = key y then (x # g) # gs else [x] # g # gs))"

text \<open>
  The minute of the day of a clock string, in the specification's words: split at the
  colon, the hour times sixty plus the minute, the minute counted as zero when it is absent
  or does not parse.
\<close>

definition toMinutesOfDay :: "string \<Rightarrow> jsnum" where
  "toMinutesOfDay clock =
     (case js_split CHR '':'' clock of
        [] \<Rightarrow> NaN
      | [h] \<Rightarrow> js_mul (Number h) (Fin 60)
      | h # m # _ \<Rightarrow>
          js_add (js_mul (Number h) (Fin 60)) (if isNaN (Number m) then Fin 0 else Number m))"


text \<open>
  The hour and the minute component of a string as the code converts them: the first and
  the second piece of the split at the colon, as numbers. The minute component is missing
  (\<open>None\<close>) when the string has no colon.
\<close>

definition hourOf :: "string \<Rightarrow> jsnum" where
  "hourOf s = ToNumber (elemAt (map Number (js_split CHR '':'' s)) 0)"

definition minuteOf :: "string \<Rightarrow> jsnum option" where
  "minuteOf s = elemAt (map Number (js_split CHR '':'' s)) 1"

text \<open>
  Integers among the numbers, the non-negative ones, and the safe ones
  (\<open>Number.isSafeInteger\<close>): the integers up to \<open>2^53 - 1\<close> in absolute value, which
  a double holds exactly.
\<close>

fun isInteger :: "jsnum \<Rightarrow> bool" where
  "isInteger (Fin x) = (of_int \<lfloor>x\<rfloor> = x)"
| "isInteger _ = False"

definition isNonNegInteger :: "jsnum \<Rightarrow> bool" where
  "isNonNegInteger x = (isInteger x \<and> js_le (Fin 0) x)"

definition isSafeInteger :: "jsnum \<Rightarrow> bool" where
  "isSafeInteger x = (isInteger x \<and> js_le (js_abs x) (Fin 9007199254740991))"

text \<open>A minute component that is missing, does not parse, or is a safe integer.\<close>

definition minuteOK :: "jsnum option \<Rightarrow> bool" where
  "minuteOK v = (case v of None \<Rightarrow> True | Some x \<Rightarrow> isNaN x \<or> isSafeInteger x)"

text \<open>The input of the specification's two-row scenario.\<close>

definition scenarioInput :: string where
  "scenarioInput =
     ''1,R1,1,S1,StoreA,,,,,0,10,5,2,D1,T1,TR1,8:00\<newline>1,R1,2,S2,StoreB,,,,,0,15,3,3,D1,T1,TR1,8:00''"

text \<open>
  An input in which load id 1 recurs after a row of load 2, under a header line.
\<close>

definition interleavedInput :: string where
  "interleavedInput = ''Load,Route\<newline>1,,,A\<newline>1,,,B\<newline>2,,,C\<newline>1,,,D''"







section \<open>The invariant of the aggregation loop\<close>


section \<open>Runs of adjacent elements\<close>

lemma adjacentRuns_Cons_shape:
  "\<exists>h t. adjacentRuns key (x # xs) = (x # h) # t"
  by (auto split: list.splits)

lemma adjacentRuns_no_empty: "[] \<notin> set (adjacentRuns key xs)"
proof (induction xs)
  case Nil
  show ?case by simp
next
  case (Cons x xs)
  then show ?case by (auto split: list.splits)
qed

lemma concat_adjacentRuns: "concat (adjacentRuns key xs) = xs"
  by (induction xs) (auto split: list.splits)

lemma adjacentRuns_same_key:
  "g \<in> set (adjacentRuns key xs) \<Longrightarrow> x \<in> set g \<Longrightarrow> key x = key (hd g)"
proof (induction xs arbitrary: g x)
  case Nil
  then show ?case by simp
next
  case (Cons a xs)
  then show ?case by (fastforce split: list.splits if_splits)
qed

lemma adjacentRuns_distinct_adj:
  "distinct_adj (map (\<lambda>g. key (hd g)) (adjacentRuns key xs))"
proof (induction xs)
  case Nil
  show ?case by simp
next
  case (Cons a xs)
  with adjacentRuns_no_empty [of key xs] show ?case by (auto split: list.splits)
qed

lemma adjacentRuns_constant:
  "g \<noteq> [] \<Longrightarrow> \<forall>x\<in>set g. key x = c \<Longrightarrow> adjacentRuns key g = [g]"
proof (induction g)
  case Nil
  then show ?case by simp
next
  case (Cons a g)
  then show ?case by (cases g) (auto split: list.splits)
qed

lemma adjacentRuns_append_other:
  "g \<noteq> [] \<Longrightarrow> \<forall>x\<in>set g. key x = c \<Longrightarrow> key r \<noteq> c \<Longrightarrow>
   adjacentRuns key (g @ r # rs) = g # adjacentRuns key (r # rs)"
proof (induction g)
  case Nil
  then show ?case by simp
next
  case (Cons a g)
  show ?case
  proof (cases g)
    case Nil
    obtain h t where "adjacentRuns key (r # rs) = (r # h) # t"
      using adjacentRuns_Cons_shape [of key r rs] by blast
    with Nil Cons.prems show ?thesis by simp
  next
    case (Cons b g')
    with Cons.IH Cons.prems
    have "adjacentRuns key (g @ r # rs) = g # adjacentRuns key (r # rs)" by simp
    with Cons Cons.prems show ?thesis by simp
  qed
qed

section \<open>The scan of the parser\<close>

lemma js_split_not_Nil: "js_split sep s \<noteq> []"
  by (induction s) (auto split: list.splits)

lemma isNewLoad_loadIdOf: "isNewLoad cols \<Longrightarrow> loadIdOf cols \<noteq> []"
  by (auto simp: isNewLoad_def loadIdOf_def split: option.splits)

lemma finalize_fields [simp]:
  "loadNo (finalize cur) = loadNo cur"
  "stops (finalize cur) = stops cur"
  "totalReturnLeg (finalize cur) = totalReturnLeg cur"
  by (simp_all add: finalize_def Let_def PartialLoad.defs)

lemma newLoad_fields [simp]:
  "loadNo (newLoad i cols stop) = i"
  "stops (newLoad i cols stop) = [stop]"
  "totalReturnLeg (newLoad i cols stop) = returnLeg stop"
  by (simp_all add: newLoad_def)

lemma addStop_fields [simp]:
  "loadNo (addStop cur cols stop) = loadNo cur"
  "stops (addStop cur cols stop) = stops cur @ [stop]"
  "totalReturnLeg (addStop cur cols stop) = returnLeg stop"
  by (simp_all add: addStop_def)

lemma processLine_cases:
  "processLine (out, cur) line =
     (if \<not> isNewLoad (columns line) then (out, cur)
      else case cur of
             None \<Rightarrow> (out, Some (newLoad (loadIdOf (columns line)) (columns line) (mkStop (columns line))))
           | Some c \<Rightarrow>
               if loadNo c \<noteq> loadIdOf (columns line)
               then (if loadNo c \<noteq> [] then out @ [finalize c] else out,
                     Some (newLoad (loadIdOf (columns line)) (columns line) (mkStop (columns line))))
               else (out, Some (addStop c (columns line) (mkStop (columns line)))))"
  by (simp add: processLine_def pushCurrent_def Let_def split: option.splits)

lemma scan_current:
  "g \<noteq> [] \<Longrightarrow> \<forall>r\<in>set g. loadIdOf r = loadNo cur \<Longrightarrow> loadNo cur \<noteq> [] \<Longrightarrow>
   stops cur = map mkStop g \<Longrightarrow> totalReturnLeg cur = returnLeg (mkStop (last g)) \<Longrightarrow>
   map (\<lambda>l. (loadNo l, stops l, totalReturnLeg l))
     (pushCurrent (foldl processLine (out, Some cur) ls)) =
   map (\<lambda>l. (loadNo l, stops l, totalReturnLeg l)) out @
   map (\<lambda>g. (loadIdOf (hd g), map mkStop g, returnLeg (mkStop (last g))))
     (adjacentRuns loadIdOf (g @ filter isNewLoad (map columns ls)))"
proof (induction ls arbitrary: out cur g)
  case Nil
  from Nil.prems have "adjacentRuns loadIdOf g = [g]"
    by (intro adjacentRuns_constant [where c = "loadNo cur"]) auto
  moreover from Nil.prems have "loadIdOf (hd g) = loadNo cur" by simp
  ultimately show ?case using Nil.prems by (simp add: pushCurrent_def)
next
  case (Cons line ls)
  let ?r = "columns line"
  show ?case
  proof (cases "isNewLoad ?r")
    case False
    with Cons.IH [OF Cons.prems] show ?thesis by (simp add: processLine_cases)
  next
    case True
    show ?thesis
    proof (cases "loadNo cur = loadIdOf ?r")
      case same: True
      let ?cur = "addStop cur ?r (mkStop ?r)"
      have "map (\<lambda>l. (loadNo l, stops l, totalReturnLeg l))
              (pushCurrent (foldl processLine (out, Some ?cur) ls)) =
            map (\<lambda>l. (loadNo l, stops l, totalReturnLeg l)) out @
            map (\<lambda>g. (loadIdOf (hd g), map mkStop g, returnLeg (mkStop (last g))))
              (adjacentRuns loadIdOf ((g @ [?r]) @ filter isNewLoad (map columns ls)))"
        using Cons.prems same by (intro Cons.IH) auto
      with True same show ?thesis by (simp add: processLine_cases)
    next
      case other: False
      let ?cur = "newLoad (loadIdOf ?r) ?r (mkStop ?r)"
      have "map (\<lambda>l. (loadNo l, stops l, totalReturnLeg l))
              (pushCurrent (foldl processLine (out @ [finalize cur], Some ?cur) ls)) =
            map (\<lambda>l. (loadNo l, stops l, totalReturnLeg l)) (out @ [finalize cur]) @
            map (\<lambda>g. (loadIdOf (hd g), map mkStop g, returnLeg (mkStop (last g))))
              (adjacentRuns loadIdOf ([?r] @ filter isNewLoad (map columns ls)))"
        using True isNewLoad_loadIdOf [of ?r] by (intro Cons.IH) auto
      moreover have "adjacentRuns loadIdOf (g @ ?r # filter isNewLoad (map columns ls)) =
            g # adjacentRuns loadIdOf (?r # filter isNewLoad (map columns ls))"
        using Cons.prems other by (intro adjacentRuns_append_other [where c = "loadNo cur"]) auto
      moreover from Cons.prems have "loadIdOf (hd g) = loadNo cur" by simp
      ultimately show ?thesis using True other Cons.prems by (simp add: processLine_cases)
    qed
  qed
qed

lemma scan_start:
  "map (\<lambda>l. (loadNo l, stops l, totalReturnLeg l))
     (pushCurrent (foldl processLine (out, None) ls)) =
   map (\<lambda>l. (loadNo l, stops l, totalReturnLeg l)) out @
   map (\<lambda>g. (loadIdOf (hd g), map mkStop g, returnLeg (mkStop (last g))))
     (adjacentRuns loadIdOf (filter isNewLoad (map columns ls)))"
proof (induction ls arbitrary: out)
  case Nil
  show ?case by (simp add: pushCurrent_def)
next
  case (Cons line ls)
  let ?r = "columns line"
  show ?case
  proof (cases "isNewLoad ?r")
    case False
    with Cons.IH show ?thesis by (simp add: processLine_cases)
  next
    case True
    let ?cur = "newLoad (loadIdOf ?r) ?r (mkStop ?r)"
    have "map (\<lambda>l. (loadNo l, stops l, totalReturnLeg l))
            (pushCurrent (foldl processLine (out, Some ?cur) ls)) =
          map (\<lambda>l. (loadNo l, stops l, totalReturnLeg l)) out @
          map (\<lambda>g. (loadIdOf (hd g), map mkStop g, returnLeg (mkStop (last g))))
            (adjacentRuns loadIdOf ([?r] @ filter isNewLoad (map columns ls)))"
      using True isNewLoad_loadIdOf [of ?r] by (intro scan_current) auto
    with True show ?thesis by (simp add: processLine_cases)
  qed
qed

lemma parse_runs:
  "map (\<lambda>l. (loadNo l, stops l, totalReturnLeg l)) (parseTransportCsv t) =
   map (\<lambda>g. (loadIdOf (hd g), map mkStop g, returnLeg (mkStop (last g))))
     (adjacentRuns loadIdOf (dataRows t))"
  using scan_start [of "[]" "js_split CHR ''\<newline>'' t"]
  by (simp add: parseTransportCsv_def dataRows_def)

section \<open>Clock strings and minutes of the day\<close>

lemma js_add_zero [simp]: "js_add x (Fin 0) = x"
  by (cases x) auto

lemma orZero_alt: "orZero x = (if isNaN x then Fin 0 else x)"
  by (cases x) (auto simp: orZero_def)

lemma minutes_expression:
  "js_add (js_mul (ToNumber (elemAt (map Number (js_split CHR '':'' s)) 0)) (Fin 60))
          (orZeroU (elemAt (map Number (js_split CHR '':'' s)) 1))
   = toMinutesOfDay s"
proof (cases "js_split CHR '':'' s")
  case Nil
  then show ?thesis by (simp add: toMinutesOfDay_def elemAt_def ToNumber_def)
next
  case (Cons h r)
  then show ?thesis
    by (cases r) (simp_all add: toMinutesOfDay_def elemAt_def ToNumber_def orZeroU_def orZero_alt)
qed

lemma calculateMinutesBetween_minutes:
  "a \<noteq> [] \<Longrightarrow> b \<noteq> [] \<Longrightarrow>
   calculateMinutesBetween a b = js_abs (js_sub (toMinutesOfDay b) (toMinutesOfDay a))"
  unfolding calculateMinutesBetween_def Let_def minutes_expression by simp















lemma toMinutesOfDay_components:
  "toMinutesOfDay s = js_add (js_mul (hourOf s) (Fin 60)) (orZeroU (minuteOf s))"
  unfolding hourOf_def minuteOf_def by (rule minutes_expression [symmetric])

lemma isInteger_Ints: "isInteger x = (\<exists>q. x = Fin q \<and> q \<in> \<int>)"
proof (cases x)
  case (Fin q)
  have "(of_int \<lfloor>q\<rfloor> = q) = (q \<in> \<int>)"
    by (metis Ints_of_int of_int_floor)
  with Fin show ?thesis by simp
qed simp_all

lemma minutes_integer:
  "isSafeInteger h \<Longrightarrow> minuteOK m \<Longrightarrow>
   \<exists>q. js_add (js_mul h (Fin 60)) (orZeroU m) = Fin q \<and> q \<in> \<int>"
proof -
  assume "isSafeInteger h" and m: "minuteOK m"
  then obtain a where h: "h = Fin a" "a \<in> \<int>"
    by (auto simp: isSafeInteger_def isInteger_Ints)
  then have a60: "a * 60 \<in> \<int>" by simp
  show ?thesis
  proof (cases m)
    case None
    with h a60 show ?thesis by (simp add: orZeroU_def)
  next
    case (Some x)
    show ?thesis
    proof (cases "isNaN x")
      case True
      with Some h a60 show ?thesis by (simp add: orZeroU_def orZero_alt)
    next
      case False
      with m Some obtain b where "x = Fin b" "b \<in> \<int>"
        by (auto simp: minuteOK_def isSafeInteger_def isInteger_Ints)
      with Some h a60 show ?thesis by (simp add: orZeroU_def orZero_alt)
    qed
  qed
qed

lemma js_mul_NaN [simp]: "js_mul NaN y = NaN"
  by simp

lemma isNaN_iff: "isNaN x = (x = NaN)"
  by (cases x) simp_all

lemma js_abs_sub_NaN [simp]:
  "js_abs (js_sub NaN y) = NaN" "js_abs (js_sub x NaN) = NaN"
  by (cases x; simp add: js_sub_def)+

section \<open>Sorting with a comparator\<close>

lemma set_insertBy [simp]: "set (insertBy cmp x ys) = insert x (set ys)"
  by (induction ys) auto

lemma length_insertBy [simp]: "length (insertBy cmp x ys) = Suc (length ys)"
  by (induction ys) auto

lemma set_js_sort [simp]: "set (js_sort cmp xs) = set xs"
  by (induction xs) (auto simp: js_sort_def)

lemma length_js_sort [simp]: "length (js_sort cmp xs) = length xs"
  by (induction xs) (auto simp: js_sort_def)









section \<open>The aggregation loop\<close>



lemma account_fields [simp]:
  "driverName (account load st) = driverName st"
  "loads (account load st) = loads st @ [load]"
  "totalKms (account load st) =
     js_add (totalKms st) (js_add (totalDistance load) (totalReturnLeg load))"
  by (simp_all add: account_def)

lemma initStats_fields [simp]:
  "driverName (initStats d) = d"
  "loads (initStats d) = []"
  "totalKms (initStats d) = Fin 0"
  by (simp_all add: initStats_def)














lemma map_image_eq:
  "map f xs = map g ys \<Longrightarrow> map (\<lambda>x. h (f x)) xs = map (\<lambda>y. h (g y)) ys"
proof -
  assume "map f xs = map g ys"
  then have "map h (map f xs) = map h (map g ys)" by simp
  then show ?thesis by (simp add: comp_def)
qed





section \<open>Duration estimator: the result\<close>



section \<open>The parser on the two-row scenario\<close>

text \<open>
  Claim C2, as the specification states it: the scenario input gives one load with
  \<open>loadNo = "1"\<close>, two stops, \<open>totalPallets = 5\<close>, \<open>totalDistance = 25\<close>,
  \<open>totalReturnLeg = 3\<close> and \<open>expectedTimeMinutes = 88\<close>. The parser does not return
  that: the columns 10, 11 and 12 of the two rows are 10, 5, 2 and 15, 3, 3.
\<close>

theorem scenario_not_as_stated:
  "\<not> (length (parseTransportCsv scenarioInput) = 1
      \<and> loadNo (hd (parseTransportCsv scenarioInput)) = ''1''
      \<and> length (stops (hd (parseTransportCsv scenarioInput))) = 2
      \<and> PartialLoad.totalPallets (hd (parseTransportCsv scenarioInput)) = Fin 5
      \<and> totalDistance (hd (parseTransportCsv scenarioInput)) = Fin 25
      \<and> totalReturnLeg (hd (parseTransportCsv scenarioInput)) = Fin 3
      \<and> expectedTimeMinutes (hd (parseTransportCsv scenarioInput)) = Fin 88)"
  by code_simp

text \<open>
  Claim C2, amended. The scenario input gives exactly one load, with \<open>loadNo = "1"\<close>, two
  stops, \<open>totalPallets = 25\<close> (10 + 15, column 10), \<open>totalDistance = 8\<close> (5 + 3,
  column 11), \<open>totalReturnLeg = 3\<close> (column 12 of the last row) and
  \<open>expectedTimeMinutes = 71\<close> (8 + 3 + 2 * 30).
\<close>

theorem scenario_loads:
  "parseTransportCsv scenarioInput =
     [\<lparr> loadNo = ''1'', routeNo = Some ''R1'', driver = ''D1'', truck = ''T1'',
         trailer = ''TR1'', despatchTime = ''8:00'', date = [],
         stops =
           [\<lparr> stopNo = Fin 1, storeNo = Some ''S1'', storeName = Some ''StoreA'',
               distance = Fin 5, returnLeg = Fin 2, windowStart = Some [],
               windowEnd = Some [] \<rparr>,
            \<lparr> stopNo = Fin 2, storeNo = Some ''S2'', storeName = Some ''StoreB'',
               distance = Fin 3, returnLeg = Fin 3, windowStart = Some [],
               windowEnd = Some [] \<rparr>],
         totalPallets = Fin 25, totalDistance = Fin 8, totalReturnLeg = Fin 3,
         expectedTimeMinutes = Fin 71 \<rparr>]"
  by code_simp

section \<open>The parser groups rows by adjacency\<close>

text \<open>
  Claim C1. For every input text the parser groups the data rows by adjacency of the load
  id alone. The maximal runs of the data rows partition them in order, each run is not
  empty and has one load id, and two runs that follow each other have different load ids.
  The loads returned are these runs, one load per run and in the same order: the load has
  the load id of its run and one stop per row of the run, in row order. So a load id that
  comes back after another one gives a further load and is never merged with the earlier
  one.
\<close>

theorem parse_groups_by_adjacency:
  "concat (adjacentRuns loadIdOf (dataRows t)) = dataRows t
   \<and> (\<forall>g \<in> set (adjacentRuns loadIdOf (dataRows t)).
         g \<noteq> [] \<and> (\<forall>r \<in> set g. loadIdOf r = loadIdOf (hd g)))
   \<and> (\<forall>i. Suc i < length (adjacentRuns loadIdOf (dataRows t)) \<longrightarrow>
         loadIdOf (hd (adjacentRuns loadIdOf (dataRows t) ! i))
         \<noteq> loadIdOf (hd (adjacentRuns loadIdOf (dataRows t) ! Suc i)))
   \<and> map loadNo (parseTransportCsv t) =
       map (\<lambda>g. loadIdOf (hd g)) (adjacentRuns loadIdOf (dataRows t))
   \<and> map stops (parseTransportCsv t) = map (map mkStop) (adjacentRuns loadIdOf (dataRows t))"
proof (intro conjI)
  show "concat (adjacentRuns loadIdOf (dataRows t)) = dataRows t"
    by (rule concat_adjacentRuns)
  show "\<forall>g \<in> set (adjacentRuns loadIdOf (dataRows t)).
          g \<noteq> [] \<and> (\<forall>r \<in> set g. loadIdOf r = loadIdOf (hd g))"
    using adjacentRuns_no_empty [of loadIdOf "dataRows t"] adjacentRuns_same_key [of _ loadIdOf "dataRows t"]
    by auto
  show "\<forall>i. Suc i < length (adjacentRuns loadIdOf (dataRows t)) \<longrightarrow>
          loadIdOf (hd (adjacentRuns loadIdOf (dataRows t) ! i))
          \<noteq> loadIdOf (hd (adjacentRuns loadIdOf (dataRows t) ! Suc i))"
    using adjacentRuns_distinct_adj [of loadIdOf "dataRows t"]
    by (auto simp: distinct_adj_conv_nth)
  show "map loadNo (parseTransportCsv t) =
          map (\<lambda>g. loadIdOf (hd g)) (adjacentRuns loadIdOf (dataRows t))"
    using map_image_eq [OF parse_runs, of fst t] by simp
  show "map stops (parseTransportCsv t) = map (map mkStop) (adjacentRuns loadIdOf (dataRows t))"
    using map_image_eq [OF parse_runs, of "\<lambda>p. fst (snd p)" t] by simp
qed

theorem parse_groups_by_adjacency_witness:
  "adjacentRuns loadIdOf (dataRows interleavedInput) =
     [[[''1'', [], [], ''A''], [''1'', [], [], ''B'']], [[''2'', [], [], ''C'']],
      [[''1'', [], [], ''D'']]]
   \<and> map loadNo (parseTransportCsv interleavedInput) = [''1'', ''2'', ''1'']
   \<and> map (\<lambda>l. map storeNo (stops l)) (parseTransportCsv interleavedInput) =
       [[Some ''A'', Some ''B''], [Some ''C''], [Some ''D'']]"
proof -
  have runs: "adjacentRuns loadIdOf (dataRows interleavedInput) =
     [[[''1'', [], [], ''A''], [''1'', [], [], ''B'']], [[''2'', [], [], ''C'']],
      [[''1'', [], [], ''D'']]]"
    by code_simp
  from parse_groups_by_adjacency [of interleavedInput]
  have ids: "map loadNo (parseTransportCsv interleavedInput) =
               map (\<lambda>g. loadIdOf (hd g)) (adjacentRuns loadIdOf (dataRows interleavedInput))"
    and sts: "map stops (parseTransportCsv interleavedInput) =
               map (map mkStop) (adjacentRuns loadIdOf (dataRows interleavedInput))"
    by blast+
  have "map (\<lambda>l. map storeNo (stops l)) (parseTransportCsv interleavedInput) =
        map (map storeNo) (map stops (parseTransportCsv interleavedInput))"
    by (simp add: comp_def)
  with runs ids sts show ?thesis
    by (simp add: loadIdOf_def elemAt_def mkStop_def)
qed

text \<open>
  Claim C4. For every run of adjacent data rows with one load id, the load's
  \<open>totalReturnLeg\<close> is the return leg read from the last row of the run (column 12, with
  \<open>0\<close> for a value that does not parse); the earlier rows do not contribute.
\<close>

theorem totalReturnLeg_is_last_row:
  "map totalReturnLeg (parseTransportCsv t) =
     map (\<lambda>g. orZero (parseFloat (elemAt (last g) 12))) (adjacentRuns loadIdOf (dataRows t))"
  using map_image_eq [OF parse_runs, of "\<lambda>p. snd (snd p)" t] by (simp add: mkStop_def)

text \<open>
  Claim C9. Every load the parser returns has at least one stop.
\<close>

theorem stops_not_empty:
  "\<forall>l \<in> set (parseTransportCsv t). 1 \<le> length (stops l)"
proof
  fix l assume "l \<in> set (parseTransportCsv t)"
  then have "stops l \<in> set (map stops (parseTransportCsv t))" by simp
  also have "map stops (parseTransportCsv t) = map (map mkStop) (adjacentRuns loadIdOf (dataRows t))"
    using map_image_eq [OF parse_runs, of "\<lambda>p. fst (snd p)" t] by simp
  finally obtain g where "g \<in> set (adjacentRuns loadIdOf (dataRows t))" "stops l = map mkStop g"
    by auto
  with adjacentRuns_no_empty [of loadIdOf "dataRows t"] have "stops l \<noteq> []" by auto
  then show "1 \<le> length (stops l)" by (cases "stops l") auto
qed

theorem stops_not_empty_witness:
  "hd (parseTransportCsv interleavedInput) \<in> set (parseTransportCsv interleavedInput)
   \<and> 1 \<le> length (stops (hd (parseTransportCsv interleavedInput)))"
proof -
  have "length (parseTransportCsv interleavedInput) = 3" by code_simp
  then have "hd (parseTransportCsv interleavedInput) \<in> set (parseTransportCsv interleavedInput)"
    by (cases "parseTransportCsv interleavedInput") auto
  with stops_not_empty [of interleavedInput] show ?thesis by blast
qed

text \<open>
  Claim C10. Two loads that follow each other in the list the parser returns have
  different \<open>loadNo\<close> values.
\<close>

theorem consecutive_loads_differ:
  "\<forall>i. Suc i < length (parseTransportCsv t) \<longrightarrow>
     loadNo (parseTransportCsv t ! i) \<noteq> loadNo (parseTransportCsv t ! Suc i)"
proof -
  have "map loadNo (parseTransportCsv t) =
          map (\<lambda>g. loadIdOf (hd g)) (adjacentRuns loadIdOf (dataRows t))"
    using map_image_eq [OF parse_runs, of fst t] by simp
  with adjacentRuns_distinct_adj [of loadIdOf "dataRows t"]
  have "distinct_adj (map loadNo (parseTransportCsv t))" by simp
  then show ?thesis by (auto simp: distinct_adj_conv_nth)
qed


theorem consecutive_loads_differ_witness:
  "Suc 0 < length (parseTransportCsv interleavedInput)
   \<and> loadNo (parseTransportCsv interleavedInput ! 0)
     \<noteq> loadNo (parseTransportCsv interleavedInput ! Suc 0)"
proof -
  have "length (parseTransportCsv interleavedInput) = 3" by code_simp
  with consecutive_loads_differ [of interleavedInput] show ?thesis by simp
qed

section \<open>Time arithmetic: the results\<close>



text \<open>
  Claim C6, as the specification states it: for every pair of non-empty strings, malformed
  ones included, the result is a non-negative integer. It is not: an hour component that
  does not parse makes the result \<open>NaN\<close>.
\<close>

theorem malformed_not_integer:
  "''abc'' \<noteq> [] \<and> ''1:00'' \<noteq> [] \<and> calculateMinutesBetween ''abc'' ''1:00'' = NaN
   \<and> \<not> isNonNegInteger (calculateMinutesBetween ''abc'' ''1:00'')"
  by code_simp

text \<open>
  Claim C6, amended. \<open>calculateMinutesBetween\<close> has no failing step and returns a
  number for every pair of strings. For non-empty strings a minute component that is missing
  or does not parse counts as 0, the hour component being used as it converts. The result is
  a non-negative integer when both hour components convert to safe integers and each minute
  component is missing, does not parse, or converts to a safe integer. When an hour
  component does not parse, the result is \<open>NaN\<close>.
\<close>

theorem malformed_clock_strings:
  "a \<noteq> [] \<Longrightarrow> b \<noteq> [] \<Longrightarrow>
   (minuteOf a = None \<or> minuteOf a = Some NaN \<longrightarrow>
      calculateMinutesBetween a b =
        js_abs (js_sub (toMinutesOfDay b) (js_mul (hourOf a) (Fin 60))))
   \<and> (minuteOf b = None \<or> minuteOf b = Some NaN \<longrightarrow>
      calculateMinutesBetween a b =
        js_abs (js_sub (js_mul (hourOf b) (Fin 60)) (toMinutesOfDay a)))
   \<and> (isNaN (hourOf a) \<or> isNaN (hourOf b) \<longrightarrow> calculateMinutesBetween a b = NaN)
   \<and> (isSafeInteger (hourOf a) \<and> isSafeInteger (hourOf b) \<and> minuteOK (minuteOf a)
        \<and> minuteOK (minuteOf b) \<longrightarrow>
      isNonNegInteger (calculateMinutesBetween a b))"
proof -
  assume ne: "a \<noteq> []" "b \<noteq> []"
  then have cmb: "calculateMinutesBetween a b =
      js_abs (js_sub (toMinutesOfDay b) (toMinutesOfDay a))"
    by (rule calculateMinutesBetween_minutes)
  have 1: "minuteOf a = None \<or> minuteOf a = Some NaN \<longrightarrow>
      calculateMinutesBetween a b =
        js_abs (js_sub (toMinutesOfDay b) (js_mul (hourOf a) (Fin 60)))"
    unfolding cmb by (auto simp: toMinutesOfDay_components [of a] orZeroU_def orZero_def)
  have 2: "minuteOf b = None \<or> minuteOf b = Some NaN \<longrightarrow>
      calculateMinutesBetween a b =
        js_abs (js_sub (js_mul (hourOf b) (Fin 60)) (toMinutesOfDay a))"
    unfolding cmb by (auto simp: toMinutesOfDay_components [of b] orZeroU_def orZero_def)
  have 3: "isNaN (hourOf a) \<or> isNaN (hourOf b) \<longrightarrow> calculateMinutesBetween a b = NaN"
    unfolding cmb by (auto simp: toMinutesOfDay_components isNaN_iff)
  have 4: "isSafeInteger (hourOf a) \<and> isSafeInteger (hourOf b) \<and> minuteOK (minuteOf a)
        \<and> minuteOK (minuteOf b) \<longrightarrow> isNonNegInteger (calculateMinutesBetween a b)"
  proof
    assume h: "isSafeInteger (hourOf a) \<and> isSafeInteger (hourOf b) \<and> minuteOK (minuteOf a)
        \<and> minuteOK (minuteOf b)"
    then obtain p where p: "toMinutesOfDay a = Fin p" "p \<in> \<int>"
      using minutes_integer [of "hourOf a" "minuteOf a"] by (auto simp: toMinutesOfDay_components)
    from h obtain q where q: "toMinutesOfDay b = Fin q" "q \<in> \<int>"
      using minutes_integer [of "hourOf b" "minuteOf b"] by (auto simp: toMinutesOfDay_components)
    from p q have "\<bar>q - p\<bar> \<in> \<int>" by simp
    with p q show "isNonNegInteger (calculateMinutesBetween a b)"
      unfolding cmb by (simp add: isNonNegInteger_def isInteger_Ints js_sub_def)
  qed
  from 1 2 3 4 show ?thesis by blast
qed

theorem malformed_clock_strings_witness:
  "minuteOf ''7'' = None \<and> minuteOf ''8:xx'' = Some NaN
   \<and> isSafeInteger (hourOf ''7'') \<and> isSafeInteger (hourOf ''8:xx'')
   \<and> calculateMinutesBetween ''7'' ''8:xx'' =
       js_abs (js_sub (toMinutesOfDay ''8:xx'') (js_mul (hourOf ''7'') (Fin 60)))
   \<and> calculateMinutesBetween ''7'' ''8:xx'' =
       js_abs (js_sub (js_mul (hourOf ''8:xx'') (Fin 60)) (toMinutesOfDay ''7''))
   \<and> isNonNegInteger (calculateMinutesBetween ''7'' ''8:xx'')
   \<and> isNaN (hourOf ''abc'') \<and> calculateMinutesBetween ''abc'' ''1:00'' = NaN"
proof -
  have v: "minuteOf ''7'' = None \<and> minuteOf ''8:xx'' = Some NaN
     \<and> isSafeInteger (hourOf ''7'') \<and> isSafeInteger (hourOf ''8:xx'')
     \<and> minuteOK (minuteOf ''7'') \<and> minuteOK (minuteOf ''8:xx'') \<and> isNaN (hourOf ''abc'')"
    by code_simp
  have ne: "''7'' \<noteq> []" "''8:xx'' \<noteq> []" "''abc'' \<noteq> []" "''1:00'' \<noteq> []"
    by simp_all
  from malformed_clock_strings [OF ne(1) ne(2)] malformed_clock_strings [OF ne(3) ne(4)] v
  show ?thesis by blast
qed

section \<open>Driver aggregation: the results\<close>






end
